theory Spec2Isabelle
  imports Main "HOL-Library.Char_ord" "HOL-Library.List_Lexorder"
begin

section \<open>The CRI-O handler of KubeArmor (core/crioHandler.go)\<close>

text \<open>
  The development follows \<^verbatim>\<open>KubeArmor/core/crioHandler.go\<close>. The shared registry of the
  daemon (\<^verbatim>\<open>dm.Containers\<close>, \<^verbatim>\<open>dm.EndPoints\<close>) is passed explicitly and returned updated,
  together with the lock and unlock calls made on its two mutexes.
  The ID sets of the handler are Go maps, which are reference values: they live in an
  explicit store so that aliasing (\<^verbatim>\<open>ch.containers = containers\<close>) and in-place deletion are
  visible. What the handler obtains from outside (the CRI-O RPCs, \<^verbatim>\<open>/proc\<close>, the stop
  channel, the configuration) is collected in an environment record.
\<close>

subsection \<open>Data model\<close>

text \<open>A Go \<^verbatim>\<open>error\<close> value; a nil error is \<open>None\<close> of \<open>error option\<close>.\<close>

datatype error = Error string

text \<open>
  Modelled from the spec: the message types of the runtime API (\<^verbatim>\<open>pb\<close>) and of the
  runtime specification (\<^verbatim>\<open>spec\<close>) are not among the sources. Only what \<^verbatim>\<open>GetContainerInfo\<close>
  reads is kept: the status with its ID, metadata and labels, the extended payload keyed
  \<^verbatim>\<open>"info"\<close>, and in the runtime specification the profile of the process and the path of the
  root. \<^verbatim>\<open>Status\<close>, \<^verbatim>\<open>Metadata\<close>, \<^verbatim>\<open>Process\<close> and \<^verbatim>\<open>Root\<close> are pointers in Go: \<open>None\<close> is nil.
\<close>

record pb_ContainerMetadata =
  Name :: string

record pb_ContainerStatus =
  Id :: string
  Metadata :: "pb_ContainerMetadata option"
  Labels :: "string \<rightharpoonup> string"

record pb_ContainerStatusResponse =
  Status :: "pb_ContainerStatus option"
  Info :: "string \<rightharpoonup> string"

record spec_Process =
  ApparmorProfile :: string

record spec_Root =
  Path :: string

record spec_Spec =
  Process :: "spec_Process option"
  Root :: "spec_Root option"

text \<open>\<^verbatim>\<open>CrioContainerInfo\<close>, lines 37 to 42.\<close>

record CrioContainerInfo =
  SandboxID :: string
  Pid :: int
  RuntimeSpec :: spec_Spec
  Privileged :: bool

text \<open>
  Modelled from the spec: the declaration of \<^verbatim>\<open>tp.Container\<close> is not among the sources.
  The fields are those the handler reads or writes; the namespace identifiers are integers
  with 0 for "not yet resolved", the policy and visibility fields are flags.
\<close>

record Container =
  ContainerID :: string
  ContainerName :: string
  ContainerImage :: string
  NamespaceName :: string
  EndPointName :: string
  Labels :: string
  AppArmorProfile :: string
  PidNS :: nat
  MntNS :: nat
  MergedDir :: string
  PolicyEnabled :: bool
  ProcessVisibilityEnabled :: bool
  FileVisibilityEnabled :: bool
  NetworkVisibilityEnabled :: bool
  CapabilitiesVisibilityEnabled :: bool

text \<open>
  Modelled from the spec: the declaration of \<^verbatim>\<open>tp.EndPoint\<close> is not among the sources.
  Only the fields the handler touches are kept; \<open>Containers\<close> and \<open>AppArmorProfiles\<close>
  are Go slices of strings.
\<close>

record EndPoint =
  NamespaceName :: string
  EndPointName :: string
  Containers :: "string list"
  AppArmorProfiles :: "string list"

text \<open>
  The calls the handler issues to \<^verbatim>\<open>dm.SystemMonitor\<close>. The monitor itself is not among
  the sources, so only the sequence of calls is recorded.
\<close>

datatype nsmap_call =
  AddContainerIDToNsMap string nat nat
| DeleteContainerIDFromNsMap string

text \<open>
  The two mutexes of the daemon and what the handler does with them. Of the mutexes only
  the sequence of these events is recorded.
\<close>

datatype mutex = ContainersLock | EndPointsLock

datatype lock_event = Lock mutex | Unlock mutex

text \<open>
  The part of \<^verbatim>\<open>KubeArmorDaemon\<close> this file uses. \<open>SystemMonitor\<close> is \<open>None\<close> for a nil
  pointer and otherwise holds the calls received so far. \<open>LockEvents\<close> holds the lock and
  unlock calls made so far on \<^verbatim>\<open>dm.ContainersLock\<close> and \<^verbatim>\<open>dm.EndPointsLock\<close>.
\<close>

record KubeArmorDaemon =
  Containers :: "string \<rightharpoonup> Container"
  EndPoints :: "EndPoint list"
  SystemMonitor :: "nsmap_call list option"
  LockEvents :: "lock_event list"

text \<open>
  What one call observes of the outside world. \<open>Policy\<close> is \<^verbatim>\<open>cfg.GlobalCfg.Policy\<close>.
  \<open>ContainerStatus\<close> and \<open>ListContainers\<close> are the results of the RPCs of these names,
  the second reduced to the container IDs of the response. \<open>Unmarshal\<close> is the result of
  \<^verbatim>\<open>json.Unmarshal\<close> into a \<^verbatim>\<open>CrioContainerInfo\<close>, \<open>Readlink\<close> that of \<^verbatim>\<open>os.Readlink\<close>.
  \<open>Sscanf data format\<close> is what \<^verbatim>\<open>fmt.Sscanf\<close> leaves in an integer variable that was 0
  before, and its error. \<open>StopChan\<close> tells whether the stop channel is ready; \<open>Dial\<close> is
  the error of \<^verbatim>\<open>grpc.Dial\<close>, if any; \<open>MapOrder\<close> is the order in which a \<^verbatim>\<open>range\<close> loop
  visits the keys of a map with the given key set (Go leaves it unspecified).
\<close>

record Env =
  Policy :: bool
  ContainerStatus :: "string \<Rightarrow> error + pb_ContainerStatusResponse"
  Unmarshal :: "string \<Rightarrow> error + CrioContainerInfo"
  Readlink :: "string \<Rightarrow> error + string"
  Sscanf :: "string \<Rightarrow> string \<Rightarrow> nat \<times> error option"
  ListContainers :: "error + string list"
  StopChan :: bool
  Dial :: "error option"
  MapOrder :: "string set \<Rightarrow> string list"

text \<open>
  A \<^verbatim>\<open>map[string]struct{}\<close> is a reference to a map object of which only the key set
  matters. \<open>None\<close> is the nil map: it reads as empty and deleting from it does nothing.
  The store holds the key set of every map object and the next unused address.
\<close>

type_synonym mapref = "nat option"

record store =
  cells :: "nat \<Rightarrow> string set"
  fresh :: nat

definition map_keys :: "store \<Rightarrow> mapref \<Rightarrow> string set" where
  "map_keys st m = (case m of None \<Rightarrow> {} | Some p \<Rightarrow> cells st p)"

text \<open>\<^verbatim>\<open>make(map[string]struct{})\<close>: a new, empty map object.\<close>

definition make_map :: "store \<Rightarrow> nat \<times> store" where
  "make_map st =
     (fresh st, st\<lparr>cells := (cells st)(fresh st := {}), fresh := Suc (fresh st)\<rparr>)"

text \<open>\<^verbatim>\<open>m[k] = struct{}{}\<close> on the map object at address \<open>p\<close>.\<close>

definition map_set :: "nat \<Rightarrow> string \<Rightarrow> store \<Rightarrow> store" where
  "map_set p k st = st\<lparr>cells := (cells st)(p := insert k (cells st p))\<rparr>"

text \<open>\<^verbatim>\<open>delete(m, k)\<close>.\<close>

definition map_delete :: "mapref \<Rightarrow> string \<Rightarrow> store \<Rightarrow> store" where
  "map_delete m k st =
     (case m of
        None \<Rightarrow> st
      | Some p \<Rightarrow> st\<lparr>cells := (cells st)(p := cells st p - {k})\<rparr>)"

text \<open>
  \<^verbatim>\<open>CrioHandler\<close>: the connection and the client are represented by the environment, the
  field \<open>containers\<close> is the set of tracked IDs.
\<close>

record CrioHandler =
  containers :: mapref

text \<open>How a call ends: it returns a value, or a run-time panic unwinds it.\<close>

datatype outcome = Returned bool | Panicked

subsection \<open>Helpers of the common package\<close>

text \<open>
  Modelled from the spec: \<^verbatim>\<open>kl.ContainsElement\<close> is not among the sources. The spec has the
  handler append an entry "if absent", so the helper is membership in the slice.
\<close>

definition ContainsElement :: "string list \<Rightarrow> string \<Rightarrow> bool" where
  "ContainsElement slice element \<longleftrightarrow> element \<in> set slice"

subsection \<open>GetContainerInfo\<close>

text \<open>\<^verbatim>\<open>strconv.Itoa\<close>: the decimal digits of an integer, with a sign when negative.\<close>

fun digits :: "nat \<Rightarrow> string" where
  "digits n =
     (if n < 10 then [''0123456789'' ! n]
      else digits (n div 10) @ [''0123456789'' ! (n mod 10)])"

declare digits.simps [simp del]

definition Itoa :: "int \<Rightarrow> string" where
  "Itoa i = (if i < 0 then CHR ''-'' # digits (nat (- i)) else digits (nat i))"

text \<open>The zero value \<^verbatim>\<open>tp.Container{}\<close>.\<close>

definition zero_Container :: Container where
  "zero_Container =
     \<lparr>ContainerID = [], ContainerName = [], ContainerImage = [],
      Container.NamespaceName = [], Container.EndPointName = [], Container.Labels = [],
      AppArmorProfile = [], PidNS = 0, MntNS = 0, MergedDir = [], PolicyEnabled = False,
      ProcessVisibilityEnabled = False, FileVisibilityEnabled = False,
      NetworkVisibilityEnabled = False, CapabilitiesVisibilityEnabled = False\<rparr>"

text \<open>
  How the method ends: it returns a record and an error (nil is \<open>None\<close>), or a nil
  pointer is dereferenced and the panic unwinds it.
\<close>

datatype info = InfoPanicked | InfoReturned Container "error option"

text \<open>
  Lines 113 to 144, once the status is read: the payload is decoded, the profile and the
  root are read through the pointers \<^verbatim>\<open>RuntimeSpec.Process\<close> (line 121) and
  \<^verbatim>\<open>RuntimeSpec.Root\<close> (line 124), and the two namespace links of the process are read
  and scanned. A scan that fails only logs a warning. A link that cannot be read returns
  the record as far as it is filled, with the error.
\<close>

definition read_payload :: "Env \<Rightarrow> pb_ContainerStatusResponse \<Rightarrow> Container \<Rightarrow> info" where
  "read_payload env res container =
     (case Unmarshal env (case Info res ''info'' of None \<Rightarrow> [] | Some text \<Rightarrow> text) of
        Inl err \<Rightarrow> InfoReturned zero_Container (Some err)
      | Inr containerInfo \<Rightarrow>
          (case Process (RuntimeSpec containerInfo) of
             None \<Rightarrow> InfoPanicked
           | Some process \<Rightarrow>
               (case Root (RuntimeSpec containerInfo) of
                  None \<Rightarrow> InfoPanicked
                | Some root \<Rightarrow>
                    (let c1 = container\<lparr>AppArmorProfile := ApparmorProfile process,
                                         MergedDir := Path root\<rparr>;
                         pid = Itoa (Pid containerInfo)
                     in case Readlink env (''/proc/'' @ pid @ ''/ns/pid'') of
                          Inl err \<Rightarrow> InfoReturned c1 (Some err)
                        | Inr data \<Rightarrow>
                            (let c2 = c1\<lparr>PidNS :=
                                       fst (Sscanf env data (''pid:[%d]'' @ [CHR 0x0A]))\<rparr>
                             in case Readlink env (''/proc/'' @ pid @ ''/ns/mnt'') of
                                  Inl err \<Rightarrow> InfoReturned c2 (Some err)
                                | Inr data \<Rightarrow>
                                    InfoReturned
                                      (c2\<lparr>MntNS :=
                                            fst (Sscanf env data (''mnt:[%d]'' @ [CHR 0x0A]))\<rparr>)
                                      None)))))"

text \<open>
  The method, lines 80 to 145. \<^verbatim>\<open>res.Status\<close> is dereferenced at line 98 and its
  \<^verbatim>\<open>Metadata\<close> at line 99; the labels are a map, which may be nil and then has no key.
\<close>

definition GetContainerInfo :: "Env \<Rightarrow> string \<Rightarrow> info" where
  "GetContainerInfo env containerID =
     (case ContainerStatus env containerID of
        Inl err \<Rightarrow> InfoReturned zero_Container (Some err)
      | Inr res \<Rightarrow>
          (case Status res of
             None \<Rightarrow> InfoPanicked
           | Some resContainerStatus \<Rightarrow>
               (case Metadata resContainerStatus of
                  None \<Rightarrow> InfoPanicked
                | Some metadata \<Rightarrow>
                    (let c1 = zero_Container\<lparr>ContainerID := Id resContainerStatus,
                                ContainerName := Name metadata,
                                Container.NamespaceName := ''Unknown'',
                                Container.EndPointName := ''Unknown''\<rparr>;
                         containerLables = pb_ContainerStatus.Labels resContainerStatus;
                         c2 = (case containerLables ''io.kubernetes.pod.namespace'' of
                                 Some val \<Rightarrow> c1\<lparr>Container.NamespaceName := val\<rparr>
                               | None \<Rightarrow> c1);
                         c3 = (case containerLables ''io.kubernetes.pod.name'' of
                                 Some val \<Rightarrow> c2\<lparr>Container.EndPointName := val\<rparr>
                               | None \<Rightarrow> c2)
                     in read_payload env res c3))))"

text \<open>\<^verbatim>\<open>Lock\<close> and \<^verbatim>\<open>Unlock\<close> on a mutex of the daemon.\<close>

definition lock :: "mutex \<Rightarrow> KubeArmorDaemon \<Rightarrow> KubeArmorDaemon" where
  "lock m dm = dm\<lparr>LockEvents := LockEvents dm @ [Lock m]\<rparr>"

definition unlock :: "mutex \<Rightarrow> KubeArmorDaemon \<Rightarrow> KubeArmorDaemon" where
  "unlock m dm = dm\<lparr>LockEvents := LockEvents dm @ [Unlock m]\<rparr>"

subsection \<open>UpdateCrioContainer\<close>

text \<open>The test of lines 239 and 277: the end point is the pod of the container.\<close>

definition same_pod :: "EndPoint \<Rightarrow> Container \<Rightarrow> bool" where
  "same_pod endPoint container \<longleftrightarrow>
     EndPoint.NamespaceName endPoint = Container.NamespaceName container \<and>
     EndPoint.EndPointName endPoint = Container.EndPointName container"

text \<open>
  Lines 220 to 232: the freshly fetched record takes these fields from the stored one and
  keeps its own values everywhere else.
\<close>

definition merge_stored :: "Container \<Rightarrow> Container \<Rightarrow> Container" where
  "merge_stored container stored =
     container\<lparr>Container.NamespaceName := Container.NamespaceName stored,
       Container.EndPointName := Container.EndPointName stored,
       Labels := Labels stored,
       ContainerName := ContainerName stored,
       ContainerImage := ContainerImage stored,
       PolicyEnabled := PolicyEnabled stored,
       ProcessVisibilityEnabled := ProcessVisibilityEnabled stored,
       FileVisibilityEnabled := FileVisibilityEnabled stored,
       NetworkVisibilityEnabled := NetworkVisibilityEnabled stored,
       CapabilitiesVisibilityEnabled := CapabilitiesVisibilityEnabled stored\<rparr>"

text \<open>
  Lines 240 to 248, the body of the loop for the end point that matches. Both tests read
  the loop's copy \<^verbatim>\<open>endPoint\<close>, both appends go to \<^verbatim>\<open>dm.EndPoints[idx]\<close>.
\<close>

definition add_to_endpoint :: "Container \<Rightarrow> EndPoint \<Rightarrow> EndPoint" where
  "add_to_endpoint container endPoint =
     (let e1 = (if \<not> ContainsElement (EndPoint.Containers endPoint) (ContainerID container)
                then endPoint\<lparr>EndPoint.Containers :=
                       EndPoint.Containers endPoint @ [ContainerID container]\<rparr>
                else endPoint)
      in if \<not> ContainsElement (AppArmorProfiles endPoint) (AppArmorProfile container)
         then e1\<lparr>AppArmorProfiles := AppArmorProfiles e1 @ [AppArmorProfile container]\<rparr>
         else e1)"

text \<open>Lines 238 to 252: the loop over \<^verbatim>\<open>dm.EndPoints\<close>, left at the first match.\<close>

fun add_to_endpoints :: "Container \<Rightarrow> EndPoint list \<Rightarrow> EndPoint list" where
  "add_to_endpoints container [] = []"
| "add_to_endpoints container (endPoint # rest) =
     (if same_pod endPoint container then add_to_endpoint container endPoint # rest
      else endPoint # add_to_endpoints container rest)"

text \<open>
  Lines 279 to 284 and 287 to 292: the index of the first entry equal to \<open>x\<close>, and the
  slice \<^verbatim>\<open>append(s[:i], s[i+1:]...)\<close> without it. Without such an entry the slice stays.
\<close>

fun first_index :: "string \<Rightarrow> string list \<Rightarrow> nat option" where
  "first_index x [] = None"
| "first_index x (y # ys) =
     (if y = x then Some 0 else map_option Suc (first_index x ys))"

definition remove_first :: "string \<Rightarrow> string list \<Rightarrow> string list" where
  "remove_first x s =
     (case first_index x s of None \<Rightarrow> s | Some i \<Rightarrow> take i s @ drop (Suc i) s)"

text \<open>Lines 278 to 292, the body of the loop for the end point that matches.\<close>

definition remove_from_endpoint :: "Container \<Rightarrow> EndPoint \<Rightarrow> EndPoint" where
  "remove_from_endpoint container endPoint =
     endPoint\<lparr>EndPoint.Containers :=
         remove_first (ContainerID container) (EndPoint.Containers endPoint),
       AppArmorProfiles :=
         remove_first (AppArmorProfile container) (AppArmorProfiles endPoint)\<rparr>"

text \<open>Lines 276 to 296: the loop over \<^verbatim>\<open>dm.EndPoints\<close>, left at the first match.\<close>

fun remove_from_endpoints :: "Container \<Rightarrow> EndPoint list \<Rightarrow> EndPoint list" where
  "remove_from_endpoints container [] = []"
| "remove_from_endpoints container (endPoint # rest) =
     (if same_pod endPoint container then remove_from_endpoint container endPoint # rest
      else endPoint # remove_from_endpoints container rest)"

text \<open>
  Lines 259 to 262 and 299 to 302: the monitor is told only if it exists and policy
  enforcement is configured.
\<close>

definition tell_monitor :: "Env \<Rightarrow> nsmap_call \<Rightarrow> KubeArmorDaemon \<Rightarrow> KubeArmorDaemon" where
  "tell_monitor env call dm =
     (case SystemMonitor dm of
        None \<Rightarrow> dm
      | Some calls \<Rightarrow>
          if Policy env then dm\<lparr>SystemMonitor := Some (calls @ [call])\<rparr> else dm)"

text \<open>
  Lines 264 and 304: the log line prints \<^verbatim>\<open>containerID[:12]\<close>. Slicing a Go string
  beyond its length panics, so the call returns true only for an ID of at least 12 bytes.
\<close>

definition log_detected :: "string \<Rightarrow> outcome" where
  "log_detected containerID =
     (if length containerID < 12 then Panicked else Returned True)"

text \<open>
  The function itself. \<open>Crio\<close> is the global handler pointer, \<open>None\<close> when nil. A panic
  in \<^verbatim>\<open>GetContainerInfo\<close> unwinds the call before anything is locked or written. An action
  other than \<^verbatim>\<open>"start"\<close> and \<^verbatim>\<open>"destroy"\<close> falls through to \<^verbatim>\<open>return true\<close>.
\<close>

definition UpdateCrioContainer ::
  "Env \<Rightarrow> CrioHandler option \<Rightarrow> KubeArmorDaemon \<Rightarrow> string \<Rightarrow> string \<Rightarrow> outcome \<times> KubeArmorDaemon"
where
  "UpdateCrioContainer env Crio dm containerID action =
     (if Crio = None then (Returned False, dm)
      else if action = ''start'' then
        (case GetContainerInfo env containerID of
           InfoPanicked \<Rightarrow> (Panicked, dm)
         | InfoReturned container (Some err) \<Rightarrow> (Returned False, dm)
         | InfoReturned container None \<Rightarrow>
             if ContainerID container = [] then (Returned False, dm)
             else
               (let dm0 = lock ContainersLock dm
                in case KubeArmorDaemon.Containers dm0 (ContainerID container) of
                  None \<Rightarrow>
                    (let dm1 = unlock ContainersLock
                                 (dm0\<lparr>KubeArmorDaemon.Containers :=
                                    (KubeArmorDaemon.Containers dm0)
                                      (ContainerID container \<mapsto> container)\<rparr>);
                         dm2 = tell_monitor env
                                 (AddContainerIDToNsMap containerID (PidNS container) (MntNS container)) dm1
                     in (log_detected containerID, dm2))
                | Some stored \<Rightarrow>
                    if PidNS stored = 0 \<and> MntNS stored = 0 then
                      (let merged = merge_stored container stored;
                           dm1 = unlock ContainersLock
                                   (dm0\<lparr>KubeArmorDaemon.Containers :=
                                      (KubeArmorDaemon.Containers dm0)(ContainerID merged \<mapsto> merged)\<rparr>);
                           dm2 = unlock EndPointsLock
                                   ((lock EndPointsLock dm1)
                                      \<lparr>EndPoints := add_to_endpoints merged (EndPoints dm1)\<rparr>);
                           dm3 = tell_monitor env
                                   (AddContainerIDToNsMap containerID (PidNS merged) (MntNS merged)) dm2
                       in (log_detected containerID, dm3))
                    else (Returned False, unlock ContainersLock dm0)))
      else if action = ''destroy'' then
        (let dm0 = lock ContainersLock dm
         in case KubeArmorDaemon.Containers dm0 containerID of
           None \<Rightarrow> (Returned False, unlock ContainersLock dm0)
         | Some container \<Rightarrow>
             (let dm1 = unlock ContainersLock
                          (dm0\<lparr>KubeArmorDaemon.Containers :=
                             (KubeArmorDaemon.Containers dm0)(containerID := None)\<rparr>);
                  dm2 = unlock EndPointsLock
                          ((lock EndPointsLock dm1)
                             \<lparr>EndPoints := remove_from_endpoints container (EndPoints dm1)\<rparr>);
                  dm3 = tell_monitor env (DeleteContainerIDFromNsMap containerID) dm2
              in (log_detected containerID, dm3)))
      else (Returned True, dm))"

subsection \<open>The handler and its ID sets\<close>

text \<open>
  \<^verbatim>\<open>NewCrioHandler\<close>: nil when dialling fails, else a handler with a new, empty tracked set.
\<close>

definition NewCrioHandler :: "Env \<Rightarrow> store \<Rightarrow> CrioHandler option \<times> store" where
  "NewCrioHandler env st =
     (case Dial env of
        Some err \<Rightarrow> (None, st)
      | None \<Rightarrow>
          (let (p, st1) = make_map st
           in (Some \<lparr>containers = Some p\<rparr>, st1)))"

text \<open>
  \<^verbatim>\<open>GetCrioContainers\<close>. The function declares \<^verbatim>\<open>var err error\<close>, which is nil. The
  \<^verbatim>\<open>if containerList, err := ...\<close> statement declares a second \<^verbatim>\<open>err\<close> whose scope is that
  statement only, so the final \<^verbatim>\<open>return nil, err\<close> returns the outer one.
\<close>

definition GetCrioContainers :: "Env \<Rightarrow> store \<Rightarrow> (mapref \<times> error option) \<times> store" where
  "GetCrioContainers env st =
     (let (p, st1) = make_map st;
          err = None
      in case ListContainers env of
           Inr containerList \<Rightarrow> ((Some p, None), fold (map_set p) containerList st1)
         | Inl rpc_err \<Rightarrow> ((None, err), st1))"

text \<open>\<^verbatim>\<open>GetNewCrioContainers\<close>; \<open>live\<close> is the argument \<^verbatim>\<open>containers\<close>.\<close>

definition GetNewCrioContainers ::
  "Env \<Rightarrow> CrioHandler \<Rightarrow> mapref \<Rightarrow> store \<Rightarrow> mapref \<times> store"
where
  "GetNewCrioContainers env ch live st =
     (let (newContainers, st1) = make_map st
      in (Some newContainers,
          fold (\<lambda>activeContainerID s.
                  if activeContainerID \<notin> map_keys s (containers ch)
                  then map_set newContainers activeContainerID s else s)
               (MapOrder env (map_keys st1 live)) st1))"

text \<open>
  \<^verbatim>\<open>GetDeletedCrioContainers\<close>; \<open>live\<close> is the argument \<^verbatim>\<open>containers\<close>. The loop deletes
  from the tracked map the key it is visiting, which Go allows, and the assignment after
  the loop makes \<^verbatim>\<open>ch.containers\<close> refer to the map object of the argument.
\<close>

definition GetDeletedCrioContainers ::
  "Env \<Rightarrow> CrioHandler \<Rightarrow> mapref \<Rightarrow> store \<Rightarrow> (mapref \<times> CrioHandler) \<times> store"
where
  "GetDeletedCrioContainers env ch live st =
     (let (deletedContainers, st1) = make_map st;
          st2 = fold (\<lambda>globalContainerID s.
                        if globalContainerID \<notin> map_keys s live
                        then map_delete (containers ch) globalContainerID
                               (map_set deletedContainers globalContainerID s)
                        else s)
                     (MapOrder env (map_keys st1 (containers ch))) st1
      in ((Some deletedContainers, ch\<lparr>containers := live\<rparr>), st2))"

subsection \<open>MonitorCrioEvents\<close>

text \<open>
  Lines 346 to 352: the loop over the new IDs. The result is whether the loop ran to its
  end (no call panicked), the registry and \<^verbatim>\<open>invalidContainers\<close>.
\<close>

fun start_new ::
  "Env \<Rightarrow> CrioHandler option \<Rightarrow> string list \<Rightarrow> KubeArmorDaemon \<Rightarrow> string list
     \<Rightarrow> bool \<times> KubeArmorDaemon \<times> string list"
where
  "start_new env Crio [] dm invalidContainers = (True, dm, invalidContainers)"
| "start_new env Crio (containerID # rest) dm invalidContainers =
     (case UpdateCrioContainer env Crio dm containerID ''start'' of
        (Panicked, dm1) \<Rightarrow> (False, dm1, invalidContainers)
      | (Returned ok, dm1) \<Rightarrow>
          start_new env Crio rest dm1
            (if ok then invalidContainers else invalidContainers @ [containerID]))"

text \<open>Lines 358 to 362: the loop over the deleted IDs; the result of each call is dropped.\<close>

fun destroy_deleted ::
  "Env \<Rightarrow> CrioHandler option \<Rightarrow> string list \<Rightarrow> KubeArmorDaemon \<Rightarrow> bool \<times> KubeArmorDaemon"
where
  "destroy_deleted env Crio [] dm = (True, dm)"
| "destroy_deleted env Crio (containerID # rest) dm =
     (case UpdateCrioContainer env Crio dm containerID ''destroy'' of
        (Panicked, dm1) \<Rightarrow> (False, dm1)
      | (Returned ok, dm1) \<Rightarrow> destroy_deleted env Crio rest dm1)"

text \<open>
  The state of the loop: the registry \<^verbatim>\<open>dm\<close>, the global handler \<^verbatim>\<open>Crio\<close> (not nil
  inside the loop) and the store of the ID maps.
\<close>

record Engine =
  daemon :: KubeArmorDaemon
  handler :: CrioHandler
  heap :: store

text \<open>
  How one iteration of the \<^verbatim>\<open>for\<close> loop ends: the function returns, a panic unwinds it, or
  it sleeps for so many milliseconds and the next iteration follows.
\<close>

datatype step = Stopped | Crashed | Sleep nat

text \<open>One iteration, lines 324 to 365, in the environment it observes.\<close>

definition poll :: "Env \<Rightarrow> Engine \<Rightarrow> step \<times> Engine" where
  "poll env s =
     (if StopChan env then (Stopped, s)
      else
        (let ((live, err), st1) = GetCrioContainers env (heap s)
         in if err \<noteq> None then (Stopped, s\<lparr>heap := st1\<rparr>)
            else if card (map_keys st1 live) = card (map_keys st1 (containers (handler s)))
            then (Sleep 10, s\<lparr>heap := st1\<rparr>)
            else
              (let (newContainers, st2) = GetNewCrioContainers env (handler s) live st1;
                   ((deletedContainers, ch), st3) =
                      GetDeletedCrioContainers env (handler s) live st2;
                   (ok, dm1, invalidContainers) =
                      start_new env (Some ch) (MapOrder env (map_keys st3 newContainers))
                        (daemon s) []
               in if \<not> ok then (Crashed, \<lparr>daemon = dm1, handler = ch, heap = st3\<rparr>)
                  else
                    (let st4 = fold (map_delete (containers ch)) invalidContainers st3;
                         (ok2, dm2) =
                            destroy_deleted env (Some ch)
                              (MapOrder env (map_keys st4 deletedContainers)) dm1
                     in (if ok2 then Sleep 50 else Crashed,
                         \<lparr>daemon = dm2, handler = ch, heap = st4\<rparr>)))))"

text \<open>
  The \<^verbatim>\<open>for\<close> loop over the environments of its successive iterations, as long as there
  are any: the steps taken and the state reached.
\<close>

fun poll_loop :: "Env list \<Rightarrow> Engine \<Rightarrow> step list \<times> Engine" where
  "poll_loop [] s = ([], s)"
| "poll_loop (env # envs) s =
     (case poll env s of
        (Sleep ms, s1) \<Rightarrow> (let (steps, s2) = poll_loop envs s1 in (Sleep ms # steps, s2))
      | (final, s1) \<Rightarrow> ([final], s1))"

text \<open>
  \<^verbatim>\<open>MonitorCrioEvents\<close>: \<open>env\<close> is what the construction of the handler observes. Without
  a handler the function returns at once and nothing is polled.
\<close>

definition MonitorCrioEvents ::
  "Env \<Rightarrow> Env list \<Rightarrow> KubeArmorDaemon \<Rightarrow> store
     \<Rightarrow> step list \<times> KubeArmorDaemon \<times> CrioHandler option \<times> store"
where
  "MonitorCrioEvents env envs dm st =
     (case NewCrioHandler env st of
        (None, st1) \<Rightarrow> ([Stopped], dm, None, st1)
      | (Some ch, st1) \<Rightarrow>
          (let (steps, s) = poll_loop envs \<lparr>daemon = dm, handler = ch, heap = st1\<rparr>
           in (steps, daemon s, Some (handler s), heap s)))"

subsection \<open>Notions used to state the properties\<close>

text \<open>
  The index of the first end point of the list that is the pod of the container: the one
  the loops of \<^verbatim>\<open>UpdateCrioContainer\<close> stop at.
\<close>

fun first_pod :: "Container \<Rightarrow> EndPoint list \<Rightarrow> nat option" where
  "first_pod container [] = None"
| "first_pod container (endPoint # rest) =
     (if same_pod endPoint container then Some 0
      else map_option Suc (first_pod container rest))"

text \<open>
  A sequence of calls of \<^verbatim>\<open>UpdateCrioContainer\<close>, each with the environment it observes,
  its container ID and its action. A panic ends the sequence. The result is the registry
  reached.
\<close>

fun UpdateCrioContainer_calls ::
  "CrioHandler option \<Rightarrow> (Env \<times> string \<times> string) list \<Rightarrow> KubeArmorDaemon \<Rightarrow> KubeArmorDaemon"
where
  "UpdateCrioContainer_calls Crio [] dm = dm"
| "UpdateCrioContainer_calls Crio ((env, containerID, action) # rest) dm =
     (case UpdateCrioContainer env Crio dm containerID action of
        (Panicked, dm1) \<Rightarrow> dm1
      | (Returned ok, dm1) \<Rightarrow> UpdateCrioContainer_calls Crio rest dm1)"

text \<open>
  A map reference is allocated when it is nil or an address below the next unused one:
  \<^verbatim>\<open>make\<close> never returns it again.
\<close>

definition allocated :: "store \<Rightarrow> mapref \<Rightarrow> bool" where
  "allocated st m \<longleftrightarrow> (case m of None \<Rightarrow> True | Some p \<Rightarrow> p < fresh st)"

text \<open>
  What Go guarantees of a \<^verbatim>\<open>range\<close> loop over a map with key set \<open>S\<close>: every key is
  visited, each once. Only a finite set can be enumerated.
\<close>

definition enumerates :: "Env \<Rightarrow> string set \<Rightarrow> bool" where
  "enumerates env S \<longleftrightarrow> set (MapOrder env S) = S \<and> distinct (MapOrder env S)"

subsection \<open>Example data\<close>

text \<open>
  A record as the runtime reports it for the container \<open>i\<close>, and a record of the same
  container as another part of the agent may have stored it before the runtime was asked:
  pod, labels and flags set, namespaces still unresolved.
\<close>

definition fetched :: "string \<Rightarrow> Container" where
  "fetched i =
     \<lparr>ContainerID = i, ContainerName = ''web'', ContainerImage = '''',
      Container.NamespaceName = ''default'', Container.EndPointName = ''web-0'', Container.Labels = '''',
      AppArmorProfile = ''kubearmor-default-web'', PidNS = 41, MntNS = 42,
      MergedDir = ''/var/lib/containers/merged'', PolicyEnabled = False,
      ProcessVisibilityEnabled = False, FileVisibilityEnabled = False,
      NetworkVisibilityEnabled = False, CapabilitiesVisibilityEnabled = False\<rparr>"

definition incomplete :: "string \<Rightarrow> Container" where
  "incomplete i =
     \<lparr>ContainerID = i, ContainerName = ''nginx'', ContainerImage = ''nginx:1.21'',
      Container.NamespaceName = ''prod'', Container.EndPointName = ''web-0'', Container.Labels = ''app=web'',
      AppArmorProfile = '''', PidNS = 0, MntNS = 0,
      MergedDir = '''', PolicyEnabled = True,
      ProcessVisibilityEnabled = True, FileVisibilityEnabled = False,
      NetworkVisibilityEnabled = True, CapabilitiesVisibilityEnabled = False\<rparr>"

text \<open>The pod \<open>web-0\<close> of a namespace, with its containers and profiles.\<close>

definition pod :: "string \<Rightarrow> string list \<Rightarrow> string list \<Rightarrow> EndPoint" where
  "pod ns ids profiles =
     \<lparr>EndPoint.NamespaceName = ns, EndPoint.EndPointName = ''web-0'',
      Containers = ids, AppArmorProfiles = profiles\<rparr>"

text \<open>
  The status the runtime reports for the container \<open>i\<close>, the payload every status
  carries, and a runtime on which exactly the containers \<open>ids\<close> exist: the process of
  each has the PID 4242 and the namespaces 41 and 42; maps are visited in sorted order.
  For a container that exists, \<^verbatim>\<open>GetContainerInfo\<close> returns \<open>fetched i\<close>.
\<close>

definition status_of :: "string \<Rightarrow> pb_ContainerStatusResponse" where
  "status_of i =
     \<lparr>Status = Some
        \<lparr>Id = i, Metadata = Some \<lparr>Name = ''web''\<rparr>,
         pb_ContainerStatus.Labels =
           [''io.kubernetes.pod.namespace'' \<mapsto> ''default'',
            ''io.kubernetes.pod.name'' \<mapsto> ''web-0'']\<rparr>,
      Info = [''info'' \<mapsto> ''{}'']\<rparr>"

definition payload :: CrioContainerInfo where
  "payload =
     \<lparr>SandboxID = ''sandbox'', Pid = 4242,
      RuntimeSpec =
        \<lparr>Process = Some \<lparr>ApparmorProfile = ''kubearmor-default-web''\<rparr>,
         Root = Some \<lparr>Path = ''/var/lib/containers/merged''\<rparr>\<rparr>,
      Privileged = False\<rparr>"

definition runtime :: "string list \<Rightarrow> Env" where
  "runtime ids =
     \<lparr>Policy = True,
      ContainerStatus =
        (\<lambda>i. if i \<in> set ids then Inr (status_of i) else Inl (Error ''not found'')),
      Unmarshal = (\<lambda>text. Inr payload),
      Readlink =
        (\<lambda>path. if path = ''/proc/4242/ns/pid'' then Inr ''pid:[41]''
               else if path = ''/proc/4242/ns/mnt'' then Inr ''mnt:[42]''
               else Inl (Error ''no such file'')),
      Sscanf =
        (\<lambda>data format. if data = ''pid:[41]'' then (41, None)
                      else if data = ''mnt:[42]'' then (42, None)
                      else (0, Some (Error ''input does not match format''))),
      ListContainers = Inr ids, StopChan = False, Dial = None,
      MapOrder = sorted_list_of_set\<rparr>"


definition registry :: "(string \<times> Container) list \<Rightarrow> EndPoint list \<Rightarrow> KubeArmorDaemon" where
  "registry cs es =
     \<lparr>KubeArmorDaemon.Containers = map_of cs, EndPoints = es, SystemMonitor = Some [],
      LockEvents = []\<rparr>"

definition the_handler :: "CrioHandler option" where
  "the_handler = Some \<lparr>containers = Some 0\<rparr>"

text \<open>
  A store with the tracked IDs in the map at address 0 and the live IDs in the map at
  address 1, and an engine that tracks the given IDs in the map at address 0.
\<close>

definition maps_store :: "string list \<Rightarrow> string list \<Rightarrow> store" where
  "maps_store tracked live =
     \<lparr>cells = (\<lambda>p. {})(0 := set tracked, 1 := set live), fresh = 2\<rparr>"

definition engine :: "KubeArmorDaemon \<Rightarrow> string list \<Rightarrow> Engine" where
  "engine d tracked =
     \<lparr>daemon = d, handler = \<lparr>containers = Some 0\<rparr>,
      heap = \<lparr>cells = (\<lambda>p. {})(0 := set tracked), fresh = 1\<rparr>\<rparr>"

text \<open>A runtime whose \<^verbatim>\<open>ListContainers\<close> RPC fails.\<close>

definition unreachable :: Env where
  "unreachable = (runtime [])\<lparr>ListContainers := Inl (Error ''connection refused'')\<rparr>"

text \<open>
  States and environments the examples use: an engine that tracks one container and has
  it registered in its pod; a registry with two containers of one pod that share a
  profile; a registry with two pods and one unresolved record of the second; the same
  pods with no record; two iterations in which the runtime lists one and the same other
  container; a store whose tracked and live sets overlap; a runtime that reports a record
  without ID for whatever it is asked; a registry with one pod and no record; a handler
  whose tracked set is the map at address 0; a store with one ID tracked and another
  live.
\<close>

abbreviation one_tracked :: Engine where
  "one_tracked \<equiv>
     engine (registry [(''8f3a1c0e7b2d'', fetched ''8f3a1c0e7b2d'')]
               [pod ''default'' [''8f3a1c0e7b2d''] [''kubearmor-default-web'']])
       [''8f3a1c0e7b2d'']"

abbreviation two_siblings :: KubeArmorDaemon where
  "two_siblings \<equiv>
     registry [(''8f3a1c0e7b2d'', fetched ''8f3a1c0e7b2d''),
               (''5d9e2b7a4c1f'', fetched ''5d9e2b7a4c1f'')]
       [pod ''prod'' [] [],
        pod ''default'' [''8f3a1c0e7b2d'', ''5d9e2b7a4c1f''] [''kubearmor-default-web'']]"

abbreviation unresolved_in_prod :: KubeArmorDaemon where
  "unresolved_in_prod \<equiv>
     registry [(''8f3a1c0e7b2d'', incomplete ''8f3a1c0e7b2d'')]
       [pod ''default'' [] [], pod ''prod'' [] []]"

abbreviation nothing_registered :: KubeArmorDaemon where
  "nothing_registered \<equiv> registry [] [pod ''default'' [] [], pod ''prod'' [] []]"

abbreviation other_listed_twice :: "Env list" where
  "other_listed_twice \<equiv> [runtime [''5d9e2b7a4c1f''], runtime [''5d9e2b7a4c1f'']]"

abbreviation overlapping_sets :: store where
  "overlapping_sets \<equiv>
     maps_store [''8f3a1c0e7b2d'', ''5d9e2b7a4c1f''] [''5d9e2b7a4c1f'', ''c07be11a9d3e'']"

abbreviation nameless_runtime :: Env where
  "nameless_runtime \<equiv> (runtime [])\<lparr>ContainerStatus := (\<lambda>i. Inr (status_of []))\<rparr>"

abbreviation empty_registry :: KubeArmorDaemon where
  "empty_registry \<equiv> registry [] [pod ''default'' [] []]"

abbreviation tracker :: CrioHandler where
  "tracker \<equiv> \<lparr>containers = Some 0\<rparr>"

abbreviation swapped_sets :: store where
  "swapped_sets \<equiv> maps_store [''8f3a1c0e7b2d''] [''5d9e2b7a4c1f'']"

section \<open>Auxiliary facts\<close>

subsection \<open>The loops over slices\<close>

lemma remove_first_remove1: "remove_first x s = remove1 x s"
proof (induction s)
  case Nil
  show ?case by (simp add: remove_first_def)
next
  case (Cons y ys)
  show ?case
  proof (cases "y = x")
    case True
    then show ?thesis by (simp add: remove_first_def)
  next
    case False
    with Cons show ?thesis
      by (cases "first_index x ys") (auto simp: remove_first_def)
  qed
qed

lemma first_pod_Some:
  "first_pod c es = Some i \<Longrightarrow>
     i < length es \<and> same_pod (es ! i) c \<and> (\<forall>j<i. \<not> same_pod (es ! j) c)"
proof (induction es arbitrary: i)
  case Nil
  then show ?case by simp
next
  case (Cons e es)
  show ?case
  proof (cases "same_pod e c")
    case True
    with Cons.prems show ?thesis by simp
  next
    case False
    with Cons.prems obtain k where k: "first_pod c es = Some k" "i = Suc k"
      by auto
    from Cons.IH[OF k(1)] False k(2) show ?thesis
      by (auto simp: less_Suc_eq_0_disj)
  qed
qed

lemma add_to_endpoints_first_pod:
  "add_to_endpoints c es =
     (case first_pod c es of None \<Rightarrow> es | Some i \<Rightarrow> es[i := add_to_endpoint c (es ! i)])"
  by (induction es) (auto split: option.splits)

lemma remove_from_endpoints_first_pod:
  "remove_from_endpoints c es =
     (case first_pod c es of None \<Rightarrow> es | Some i \<Rightarrow> es[i := remove_from_endpoint c (es ! i)])"
  by (induction es) (auto split: option.splits)

lemma add_to_endpoint_members:
  "ContainerID c \<in> set (EndPoint.Containers (add_to_endpoint c e))"
  "AppArmorProfile c \<in> set (AppArmorProfiles (add_to_endpoint c e))"
  "EndPoint.NamespaceName (add_to_endpoint c e) = EndPoint.NamespaceName e"
  "EndPoint.EndPointName (add_to_endpoint c e) = EndPoint.EndPointName e"
  by (auto simp: add_to_endpoint_def ContainsElement_def Let_def)

subsection \<open>The branches of UpdateCrioContainer\<close>

lemma merge_stored_ID [simp]: "ContainerID (merge_stored c stored) = ContainerID c"
  by (simp add: merge_stored_def)

lemma tell_monitor_fields [simp]:
  "KubeArmorDaemon.Containers (tell_monitor env call dm) = KubeArmorDaemon.Containers dm"
  "EndPoints (tell_monitor env call dm) = EndPoints dm"
  "LockEvents (tell_monitor env call dm) = LockEvents dm"
  by (simp_all add: tell_monitor_def split: option.splits)



lemma start_absent:
  assumes "Crio \<noteq> None" "GetContainerInfo env cid = InfoReturned c None"
    "ContainerID c \<noteq> []" "KubeArmorDaemon.Containers dm (ContainerID c) = None"
  shows "UpdateCrioContainer env Crio dm cid ''start'' =
     (log_detected cid,
      tell_monitor env (AddContainerIDToNsMap cid (PidNS c) (MntNS c))
        (dm\<lparr>KubeArmorDaemon.Containers := (KubeArmorDaemon.Containers dm)(ContainerID c \<mapsto> c),
            LockEvents := LockEvents dm @ [Lock ContainersLock, Unlock ContainersLock]\<rparr>))"
  using assms by (auto simp add: UpdateCrioContainer_def lock_def unlock_def)

lemma start_incomplete:
  assumes "Crio \<noteq> None" "GetContainerInfo env cid = InfoReturned c None"
    "ContainerID c \<noteq> []"
    "KubeArmorDaemon.Containers dm (ContainerID c) = Some stored"
    "PidNS stored = 0" "MntNS stored = 0"
  shows "UpdateCrioContainer env Crio dm cid ''start'' =
     (log_detected cid,
      tell_monitor env
        (AddContainerIDToNsMap cid (PidNS (merge_stored c stored)) (MntNS (merge_stored c stored)))
        (dm\<lparr>KubeArmorDaemon.Containers :=
              (KubeArmorDaemon.Containers dm)(ContainerID c \<mapsto> merge_stored c stored),
            EndPoints := add_to_endpoints (merge_stored c stored) (EndPoints dm),
            LockEvents := LockEvents dm @
              [Lock ContainersLock, Unlock ContainersLock,
               Lock EndPointsLock, Unlock EndPointsLock]\<rparr>))"
  using assms by (auto simp add: UpdateCrioContainer_def Let_def lock_def unlock_def)


lemma destroy_present:
  assumes "Crio \<noteq> None" "KubeArmorDaemon.Containers dm cid = Some c"
  shows "UpdateCrioContainer env Crio dm cid ''destroy'' =
     (log_detected cid,
      tell_monitor env (DeleteContainerIDFromNsMap cid)
        (dm\<lparr>KubeArmorDaemon.Containers := (KubeArmorDaemon.Containers dm)(cid := None),
            EndPoints := remove_from_endpoints c (EndPoints dm),
            LockEvents := LockEvents dm @
              [Lock ContainersLock, Unlock ContainersLock,
               Lock EndPointsLock, Unlock EndPointsLock]\<rparr>))"
  using assms by (auto simp add: UpdateCrioContainer_def Let_def lock_def unlock_def)

lemma start_keeps_resolved:
  assumes "KubeArmorDaemon.Containers dm i = Some stored"
    and "PidNS stored \<noteq> 0 \<or> MntNS stored \<noteq> 0"
  shows "KubeArmorDaemon.Containers (snd (UpdateCrioContainer env Crio dm containerID ''start'')) i
           = Some stored"
  using assms
  by (auto simp: UpdateCrioContainer_def Let_def lock_def unlock_def
      split: info.splits option.splits)

lemma update_keeps_empty_key_absent:
  assumes "KubeArmorDaemon.Containers dm [] = None"
  shows "KubeArmorDaemon.Containers (snd (UpdateCrioContainer env Crio dm containerID action)) [] = None"
  using assms
  by (auto simp: UpdateCrioContainer_def Let_def lock_def unlock_def
      split: info.splits option.splits)

lemma calls_keep_empty_key_absent:
  "KubeArmorDaemon.Containers dm [] = None \<Longrightarrow>
   KubeArmorDaemon.Containers (UpdateCrioContainer_calls Crio calls dm) [] = None"
proof (induction calls arbitrary: dm)
  case Nil
  then show ?case by simp
next
  case (Cons call calls)
  obtain env i a where call: "call = (env, i, a)" by (cases call)
  obtain out dm1 where r: "UpdateCrioContainer env Crio dm i a = (out, dm1)"
    by (cases "UpdateCrioContainer env Crio dm i a")
  with update_keeps_empty_key_absent[OF Cons.prems, of env Crio i a]
  have keep: "KubeArmorDaemon.Containers dm1 [] = None" by simp
  with call r Cons.IH[OF keep] show ?case
    by (cases out) simp_all
qed

subsection \<open>The store and the ID sets\<close>

lemma store_eqI: "cells a = cells b \<Longrightarrow> fresh a = fresh b \<Longrightarrow> a = (b :: store)"
  by simp

lemma map_keys_simps [simp]:
  "map_keys st (Some p) = cells st p"
  "map_keys st None = {}"
  by (simp_all add: map_keys_def)

lemma map_set_simps [simp]:
  "cells (map_set p k st) = (cells st)(p := insert k (cells st p))"
  "fresh (map_set p k st) = fresh st"
  by (simp_all add: map_set_def)

lemma map_delete_simps [simp]:
  "cells (map_delete (Some p) k st) = (cells st)(p := cells st p - {k})"
  "map_delete None k st = st"
  "fresh (map_delete m k st) = fresh st"
  by (simp_all add: map_delete_def split: option.splits)

lemma fold_map_set [simp]:
  "cells (fold (map_set p) ks st) = (cells st)(p := cells st p \<union> set ks)"
  "fresh (fold (map_set p) ks st) = fresh st"
  by (induction ks arbitrary: st) (auto simp: fun_eq_iff)

lemma GetCrioContainers_ok:
  assumes "ListContainers env = Inr ids"
  shows "GetCrioContainers env st =
     ((Some (fresh st), None),
      st\<lparr>cells := (cells st)(fresh st := set ids), fresh := Suc (fresh st)\<rparr>)"
  using assms by (auto simp add: GetCrioContainers_def make_map_def intro!: store_eqI)

lemma GetCrioContainers_error:
  assumes "ListContainers env = Inl e"
  shows "GetCrioContainers env st =
     ((None, None),
      st\<lparr>cells := (cells st)(fresh st := {}), fresh := Suc (fresh st)\<rparr>)"
  using assms by (simp add: GetCrioContainers_def make_map_def)

lemma fold_new:
  assumes "m \<noteq> Some n"
  shows "cells (fold (\<lambda>k s. if k \<notin> map_keys s m then map_set n k s else s) ks st) =
           (cells st)(n := cells st n \<union> {k \<in> set ks. k \<notin> map_keys st m})"
    and "fresh (fold (\<lambda>k s. if k \<notin> map_keys s m then map_set n k s else s) ks st) = fresh st"
proof (induction ks arbitrary: st)
  case Nil
  { case 1 show ?case by simp }
  { case 2 show ?case by simp }
next
  case (Cons k ks)
  have keep: "map_keys (map_set n k s) m = map_keys s m" for s
    using assms by (cases m) (auto simp: map_keys_def)
  { case 1 show ?case by (auto simp: Cons.IH keep fun_eq_iff) }
  { case 2 show ?case by (simp add: Cons.IH) }
qed

lemma GetNewCrioContainers_eq:
  assumes "allocated st (containers ch)" and "allocated st live"
  shows "GetNewCrioContainers env ch live st =
     (Some (fresh st),
      st\<lparr>cells := (cells st)(fresh st :=
             {k \<in> set (MapOrder env (map_keys st live)). k \<notin> map_keys st (containers ch)}),
         fresh := Suc (fresh st)\<rparr>)"
proof -
  let ?st1 = "st\<lparr>cells := (cells st)(fresh st := {}), fresh := Suc (fresh st)\<rparr>"
  have ne: "containers ch \<noteq> Some (fresh st)" "live \<noteq> Some (fresh st)"
    using assms by (auto simp: allocated_def)
  then have k: "map_keys ?st1 live = map_keys st live"
      "map_keys ?st1 (containers ch) = map_keys st (containers ch)"
    by (auto simp: map_keys_def split: option.splits)
  show ?thesis
    by (auto simp add: GetNewCrioContainers_def make_map_def fold_new[OF ne(1)] k intro!: store_eqI)
qed

lemma fold_deleted:
  assumes "live \<noteq> Some n" and "m \<noteq> Some n"
    and "m = live \<longrightarrow> set ks \<subseteq> map_keys st live"
  shows "cells (fold (\<lambda>k s. if k \<notin> map_keys s live
                            then map_delete m k (map_set n k s) else s) ks st) =
           (case m of
              None \<Rightarrow> (cells st)(n := cells st n \<union> {k \<in> set ks. k \<notin> map_keys st live})
            | Some p \<Rightarrow> (cells st)(n := cells st n \<union> {k \<in> set ks. k \<notin> map_keys st live},
                                    p := cells st p - {k \<in> set ks. k \<notin> map_keys st live}))
         \<and> fresh (fold (\<lambda>k s. if k \<notin> map_keys s live
                            then map_delete m k (map_set n k s) else s) ks st) = fresh st"
  using assms(3)
proof (induction ks arbitrary: st)
  case Nil
  show ?case by (auto split: option.splits)
next
  case (Cons k ks)
  show ?case
  proof (cases "k \<in> map_keys st live")
    case True
    with Cons.prems have "m = live \<longrightarrow> set ks \<subseteq> map_keys st live" by simp
    from Cons.IH[OF this] True show ?thesis
      by (auto simp: fun_eq_iff split: option.splits)
  next
    case False
    with Cons.prems have ne: "m \<noteq> live" by auto
    let ?s = "map_delete m k (map_set n k st)"
    have keep: "map_keys ?s live = map_keys st live"
      using assms(1,2) ne by (cases m; cases live) (auto simp: map_keys_def)
    have "m = live \<longrightarrow> set ks \<subseteq> map_keys ?s live" using ne by simp
    from Cons.IH[OF this] False keep assms(2) show ?thesis
      by (cases m) (auto simp: fun_eq_iff)
  qed
qed

lemma GetDeletedCrioContainers_eq:
  assumes "allocated st (containers ch)" and "allocated st live"
    and "set (MapOrder env (map_keys st (containers ch))) = map_keys st (containers ch)"
  shows "GetDeletedCrioContainers env ch live st =
     ((Some (fresh st), ch\<lparr>containers := live\<rparr>),
      st\<lparr>cells :=
           (case containers ch of
              None \<Rightarrow> (cells st)(fresh st := {})
            | Some p \<Rightarrow> (cells st)(fresh st := cells st p - map_keys st live,
                                    p := cells st p \<inter> map_keys st live)),
         fresh := Suc (fresh st)\<rparr>)"
proof -
  let ?st1 = "st\<lparr>cells := (cells st)(fresh st := {}), fresh := Suc (fresh st)\<rparr>"
  have ne: "live \<noteq> Some (fresh st)" "containers ch \<noteq> Some (fresh st)"
    using assms by (auto simp: allocated_def)
  then have k: "map_keys ?st1 live = map_keys st live"
      "map_keys ?st1 (containers ch) = map_keys st (containers ch)"
    by (auto simp: map_keys_def split: option.splits)
  have sub: "containers ch = live \<longrightarrow>
      set (MapOrder env (map_keys ?st1 (containers ch))) \<subseteq> map_keys ?st1 live"
    using assms(3) by (auto simp add: k)
  define g where "g = (\<lambda>k s. if k \<notin> map_keys s live
                            then map_delete (containers ch) k (map_set (fresh st) k s) else s)"
  define st2 where "st2 = fold g (MapOrder env (map_keys ?st1 (containers ch))) ?st1"
  have r: "GetDeletedCrioContainers env ch live st =
             ((Some (fresh st), ch\<lparr>containers := live\<rparr>), st2)"
    by (simp add: GetDeletedCrioContainers_def make_map_def st2_def g_def)
  from fold_deleted[OF ne sub]
  have c: "cells st2 =
       (case containers ch of
          None \<Rightarrow> (cells ?st1)(fresh st := cells ?st1 (fresh st) \<union>
                      {k \<in> set (MapOrder env (map_keys ?st1 (containers ch))). k \<notin> map_keys ?st1 live})
        | Some p \<Rightarrow> (cells ?st1)(fresh st := cells ?st1 (fresh st) \<union>
                      {k \<in> set (MapOrder env (map_keys ?st1 (containers ch))). k \<notin> map_keys ?st1 live},
                    p := cells ?st1 p -
                      {k \<in> set (MapOrder env (map_keys ?st1 (containers ch))). k \<notin> map_keys ?st1 live}))"
    and fr: "fresh st2 = fresh ?st1"
    unfolding st2_def g_def by blast+
  have c': "cells st2 =
       (case containers ch of
          None \<Rightarrow> (cells st)(fresh st := {})
        | Some p \<Rightarrow> (cells st)(fresh st := cells st p - map_keys st live,
                                p := cells st p \<inter> map_keys st live))"
    unfolding c k assms(3) using ne(2)
    by (auto simp: fun_eq_iff split: option.splits)
  show ?thesis
    unfolding r by (rule prod_eqI; simp) (rule store_eqI; simp add: c' fr)
qed

lemma poll_short_circuit:
  assumes "\<not> StopChan env" and "ListContainers env = Inr ids"
    and "allocated (heap s) (containers (handler s))"
    and "card (set ids) = card (map_keys (heap s) (containers (handler s)))"
  shows "poll env s =
     (Sleep 10,
      s\<lparr>heap := (heap s)\<lparr>cells := (cells (heap s))(fresh (heap s) := set ids),
                            fresh := Suc (fresh (heap s))\<rparr>\<rparr>)"
proof -
  let ?st1 = "(heap s)\<lparr>cells := (cells (heap s))(fresh (heap s) := set ids),
                            fresh := Suc (fresh (heap s))\<rparr>"
  have "containers (handler s) \<noteq> Some (fresh (heap s))"
    using assms(3) by (auto simp: allocated_def)
  then have "map_keys ?st1 (containers (handler s)) = map_keys (heap s) (containers (handler s))"
    by (cases "containers (handler s)") auto
  with assms show ?thesis
    by (simp add: poll_def GetCrioContainers_ok)
qed

subsection \<open>The example data\<close>

lemma digits_4242: "Itoa 4242 = ''4242''"
  by (simp add: Itoa_def digits.simps)

lemma runtime_info:
  "GetContainerInfo (runtime ids) i =
     (if i \<in> set ids then InfoReturned (fetched i) None
      else InfoReturned zero_Container (Some (Error ''not found'')))"
  by (simp add: GetContainerInfo_def read_payload_def runtime_def status_of_def payload_def
      fetched_def zero_Container_def digits_4242)

lemma nameless_info: "GetContainerInfo nameless_runtime i = InfoReturned (fetched []) None"
  by (simp add: GetContainerInfo_def read_payload_def runtime_def status_of_def payload_def
      fetched_def zero_Container_def digits_4242)


lemma runtime_fields:
  "Policy (runtime ids) = True"
  "ListContainers (runtime ids) = Inr ids"
  "StopChan (runtime ids) = False"
  "MapOrder (runtime ids) = sorted_list_of_set"
  by (simp_all add: runtime_def)

lemmas example_defs =
  fetched_def incomplete_def pod_def registry_def the_handler_def runtime_info runtime_fields

lemma runtime_enumerates: "finite S \<Longrightarrow> enumerates (runtime ids) S"
  by (simp add: enumerates_def runtime_def)


section \<open>The claims\<close>

subsection \<open>C1: linking a started container to its end point\<close>

text \<open>
  Claim C1 says that a start for a container ID absent from \<open>Containers\<close>, whose pod is
  an existing end point, puts the ID and the profile into the lists of that end point.
  The code does not: the branch for an absent ID (lines 216 to 218) stores the record and
  unlocks, the lists are touched only in the branch for a stored but unresolved record
  (lines 237 to 253). Here no record is stored, the end point of the container's pod
  exists, the call returns true, and the end point is as before.
\<close>

theorem start_absent_leaves_endpoint_counterexample:
  "KubeArmorDaemon.Containers empty_registry ''8f3a1c0e7b2d'' = None \<and>
   same_pod (pod ''default'' [] []) (fetched ''8f3a1c0e7b2d'') \<and>
   UpdateCrioContainer (runtime [''8f3a1c0e7b2d'']) the_handler empty_registry
       ''8f3a1c0e7b2d'' ''start'' =
     (Returned True,
      \<lparr>KubeArmorDaemon.Containers = [''8f3a1c0e7b2d'' \<mapsto> fetched ''8f3a1c0e7b2d''],
       EndPoints = [pod ''default'' [] []],
       SystemMonitor = Some [AddContainerIDToNsMap ''8f3a1c0e7b2d'' 41 42],
       LockEvents = [Lock ContainersLock, Unlock ContainersLock]\<rparr>) \<and>
   ''8f3a1c0e7b2d'' \<notin> set (EndPoint.Containers (pod ''default'' [] []))"
  by (simp add: example_defs UpdateCrioContainer_def same_pod_def tell_monitor_def
      log_detected_def lock_def unlock_def)

text \<open>
  Claim C1, amended. Let the runtime report a record with a non-empty ID for a start.
  If that ID is absent from \<open>Containers\<close>, the call stores the record under the ID and
  leaves \<open>EndPoints\<close> as it is. If the ID is stored with \<open>PidNS\<close> and \<open>MntNS\<close> both 0 and
  the pod of the stored record is an end point of the list, the first such end point at
  index \<open>i\<close>, then after the call the list has the same length, the end point at \<open>i\<close> is
  still that pod, the ID is a member of its \<open>Containers\<close> and the reported profile is a
  member of its \<open>AppArmorProfiles\<close>.
\<close>

theorem start_links_endpoint_on_completion:
  fixes env :: Env and Crio :: "CrioHandler option" and dm :: KubeArmorDaemon
    and containerID :: string
  defines "dm1 \<equiv> snd (UpdateCrioContainer env Crio dm containerID ''start'')"
  assumes "Crio \<noteq> None"
    and "GetContainerInfo env containerID = InfoReturned container None"
    and "ContainerID container \<noteq> []"
  shows "(KubeArmorDaemon.Containers dm (ContainerID container) = None \<longrightarrow>
            KubeArmorDaemon.Containers dm1 =
              (KubeArmorDaemon.Containers dm)(ContainerID container \<mapsto> container) \<and>
            EndPoints dm1 = EndPoints dm) \<and>
         (\<forall>stored i.
            KubeArmorDaemon.Containers dm (ContainerID container) = Some stored \<and>
            PidNS stored = 0 \<and> MntNS stored = 0 \<and>
            first_pod stored (EndPoints dm) = Some i \<longrightarrow>
              length (EndPoints dm1) = length (EndPoints dm) \<and>
              same_pod (EndPoints dm1 ! i) stored \<and>
              ContainerID container \<in> set (EndPoint.Containers (EndPoints dm1 ! i)) \<and>
              AppArmorProfile container \<in> set (AppArmorProfiles (EndPoints dm1 ! i)))"
proof (intro conjI allI impI)
  assume absent: "KubeArmorDaemon.Containers dm (ContainerID container) = None"
  with assms show "KubeArmorDaemon.Containers dm1 =
      (KubeArmorDaemon.Containers dm)(ContainerID container \<mapsto> container)"
    by (simp add: start_absent)
  from absent assms show "EndPoints dm1 = EndPoints dm"
    by (simp add: start_absent)
next
  fix stored i
  assume h: "KubeArmorDaemon.Containers dm (ContainerID container) = Some stored \<and>
            PidNS stored = 0 \<and> MntNS stored = 0 \<and>
            first_pod stored (EndPoints dm) = Some i"
  let ?m = "merge_stored container stored"
  have pod_eq: "same_pod e ?m = same_pod e stored" for e
    by (simp add: same_pod_def merge_stored_def)
  have fp: "first_pod ?m es = first_pod stored es" for es
    by (induction es) (simp_all add: pod_eq)
  from h have i: "i < length (EndPoints dm)" "same_pod (EndPoints dm ! i) stored"
    using first_pod_Some by blast+
  from assms h have eps: "EndPoints dm1 = (EndPoints dm)[i := add_to_endpoint ?m (EndPoints dm ! i)]"
    by (simp add: start_incomplete add_to_endpoints_first_pod fp)
  show "length (EndPoints dm1) = length (EndPoints dm)"
    by (simp add: eps)
  show "same_pod (EndPoints dm1 ! i) stored"
    using i by (simp add: eps same_pod_def add_to_endpoint_members)
  have "ContainerID ?m = ContainerID container" "AppArmorProfile ?m = AppArmorProfile container"
    by (simp_all add: merge_stored_def)
  then show "ContainerID container \<in> set (EndPoint.Containers (EndPoints dm1 ! i))"
    "AppArmorProfile container \<in> set (AppArmorProfiles (EndPoints dm1 ! i))"
    using i add_to_endpoint_members(1,2)[of ?m "EndPoints dm ! i"] by (simp_all add: eps)
qed

text \<open>
  Both cases for one container of the pod \<open>web-0\<close> in \<open>prod\<close>, the second of two end
  points: with no record stored the end points stay; with an unresolved record stored the
  pod gets the ID and the profile.
\<close>

theorem start_links_endpoint_on_completion_witness:
  "EndPoints (snd (UpdateCrioContainer (runtime [''8f3a1c0e7b2d'']) the_handler
                     nothing_registered ''8f3a1c0e7b2d'' ''start''))
     = [pod ''default'' [] [], pod ''prod'' [] []] \<and>
   ''8f3a1c0e7b2d'' \<in> set (EndPoint.Containers
      (EndPoints (snd (UpdateCrioContainer (runtime [''8f3a1c0e7b2d'']) the_handler
                         unresolved_in_prod ''8f3a1c0e7b2d'' ''start'')) ! 1)) \<and>
   ''kubearmor-default-web'' \<in> set (AppArmorProfiles
      (EndPoints (snd (UpdateCrioContainer (runtime [''8f3a1c0e7b2d'']) the_handler
                         unresolved_in_prod ''8f3a1c0e7b2d'' ''start'')) ! 1))"
proof -
  let ?env = "runtime [''8f3a1c0e7b2d'']"
  have env: "GetContainerInfo ?env ''8f3a1c0e7b2d'' = InfoReturned (fetched ''8f3a1c0e7b2d'') None"
    by (simp add: runtime_info)
  have h: "the_handler \<noteq> None" "ContainerID (fetched ''8f3a1c0e7b2d'') \<noteq> []"
    by (simp_all add: the_handler_def fetched_def)
  have absent:
    "KubeArmorDaemon.Containers nothing_registered (ContainerID (fetched ''8f3a1c0e7b2d''))
       = None"
    by (simp add: registry_def)
  have present:
    "KubeArmorDaemon.Containers unresolved_in_prod (ContainerID (fetched ''8f3a1c0e7b2d''))
       = Some (incomplete ''8f3a1c0e7b2d'') \<and>
     PidNS (incomplete ''8f3a1c0e7b2d'') = 0 \<and> MntNS (incomplete ''8f3a1c0e7b2d'') = 0 \<and>
     first_pod (incomplete ''8f3a1c0e7b2d'') (EndPoints unresolved_in_prod) = Some 1"
    by (simp add: example_defs same_pod_def)
  have f: "AppArmorProfile (fetched ''8f3a1c0e7b2d'') = ''kubearmor-default-web''"
    "ContainerID (fetched ''8f3a1c0e7b2d'') = ''8f3a1c0e7b2d''"
    "EndPoints nothing_registered = [pod ''default'' [] [], pod ''prod'' [] []]"
    by (simp_all add: fetched_def registry_def)
  note t = start_links_endpoint_on_completion [OF h(1) env h(2)]
  from t [of nothing_registered, THEN conjunct1] absent
  have a: "EndPoints (snd (UpdateCrioContainer ?env the_handler nothing_registered
                             ''8f3a1c0e7b2d'' ''start''))
             = EndPoints nothing_registered"
    by blast
  from t [of unresolved_in_prod, THEN conjunct2] present
  have b: "ContainerID (fetched ''8f3a1c0e7b2d'') \<in> set (EndPoint.Containers
             (EndPoints (snd (UpdateCrioContainer ?env the_handler unresolved_in_prod
                                ''8f3a1c0e7b2d'' ''start'')) ! 1)) \<and>
           AppArmorProfile (fetched ''8f3a1c0e7b2d'') \<in> set (AppArmorProfiles
             (EndPoints (snd (UpdateCrioContainer ?env the_handler unresolved_in_prod
                                ''8f3a1c0e7b2d'' ''start'')) ! 1))"
    by blast
  from a b show ?thesis unfolding f by (intro conjI) simp_all
qed

subsection \<open>C2: a failing ListContainers RPC\<close>

text \<open>
  Claim C2 says that \<^verbatim>\<open>GetCrioContainers\<close> returns the error of a failing RPC and that the
  loop then ends. The code attempts this (\<^verbatim>\<open>return nil, err\<close>, and \<^verbatim>\<open>if err != nil\<close> in the
  loop) but returns the outer \<^verbatim>\<open>err\<close>, which is nil: for every failing RPC the result is
  the nil map with the nil error, and an iteration of the loop that is not told to stop
  does not end the loop.
\<close>

theorem GetCrioContainers_drops_rpc_error:
  assumes "ListContainers env = Inl e"
  shows "fst (GetCrioContainers env st) = (None, None) \<and>
         (\<not> StopChan env \<longrightarrow> fst (poll env s) \<noteq> Stopped)"
  using assms
  by (auto simp: poll_def GetCrioContainers_error Let_def split: prod.splits)

text \<open>
  With one container tracked and registered, the failing RPC makes the iteration take
  the full path with an empty live set: it sleeps 50 ms and the container is gone from
  the registry.
\<close>

theorem GetCrioContainers_drops_rpc_error_witness:
  "ListContainers unreachable = Inl (Error ''connection refused'') \<and>
   fst (GetCrioContainers unreachable (heap one_tracked)) = (None, None) \<and>
   fst (poll unreachable one_tracked) = Sleep 50 \<and>
   KubeArmorDaemon.Containers (daemon (snd (poll unreachable one_tracked))) ''8f3a1c0e7b2d''
     = None"
proof -
  have h: "ListContainers unreachable = Inl (Error ''connection refused'')"
    by (simp add: unreachable_def)
  have e: "fst (poll unreachable one_tracked) = Sleep 50"
    by code_simp
  have c: "KubeArmorDaemon.Containers (daemon (snd (poll unreachable one_tracked)))
             ''8f3a1c0e7b2d'' = None"
    by code_simp
  from GetCrioContainers_drops_rpc_error [OF h, of "heap one_tracked" one_tracked] h e c
  show ?thesis
    by (intro conjI) simp_all
qed

subsection \<open>C3: namespaces are written once\<close>

text \<open>
  Claim C3. If the record stored for a container ID has \<open>PidNS\<close> or \<open>MntNS\<close> different
  from 0, then no sequence of start calls, for this ID or any other and whatever the
  runtime reports, changes the record stored for the ID; in particular its \<open>PidNS\<close> and
  \<open>MntNS\<close> stay.
\<close>

theorem namespaces_written_once:
  assumes "KubeArmorDaemon.Containers dm containerID = Some stored"
    and "PidNS stored \<noteq> 0 \<or> MntNS stored \<noteq> 0"
    and "\<forall>call \<in> set calls. snd (snd call) = ''start''"
  shows "KubeArmorDaemon.Containers (UpdateCrioContainer_calls Crio calls dm) containerID
           = Some stored"
  using assms
proof (induction calls arbitrary: dm)
  case Nil
  then show ?case by simp
next
  case (Cons call calls)
  obtain env i a where call: "call = (env, i, a)" by (cases call)
  with Cons.prems have a: "a = ''start''" by simp
  obtain out dm1 where r: "UpdateCrioContainer env Crio dm i ''start'' = (out, dm1)"
    by (cases "UpdateCrioContainer env Crio dm i ''start''")
  with start_keeps_resolved[OF Cons.prems(1,2), of env Crio i]
  have keep: "KubeArmorDaemon.Containers dm1 containerID = Some stored" by simp
  show ?case
  proof (cases out)
    case Panicked
    with call a r keep show ?thesis by simp
  next
    case (Returned ok)
    with call a r Cons.IH[OF keep Cons.prems(2)] Cons.prems(3) show ?thesis by simp
  qed
qed

text \<open>Two starts for a container stored with only \<open>PidNS\<close> resolved.\<close>

theorem namespaces_written_once_witness:
  "KubeArmorDaemon.Containers
     (UpdateCrioContainer_calls the_handler
        [(runtime [''8f3a1c0e7b2d''], ''8f3a1c0e7b2d'', ''start''),
         (runtime [''8f3a1c0e7b2d''], ''8f3a1c0e7b2d'', ''start'')]
        (registry [(''8f3a1c0e7b2d'', (fetched ''8f3a1c0e7b2d'')\<lparr>PidNS := 7, MntNS := 0\<rparr>)] []))
     ''8f3a1c0e7b2d''
   = Some ((fetched ''8f3a1c0e7b2d'')\<lparr>PidNS := 7, MntNS := 0\<rparr>)"
  by (rule namespaces_written_once) (simp_all add: registry_def)

subsection \<open>C4: completing an unresolved record\<close>




subsection \<open>C5: a swap that keeps the number of containers\<close>

text \<open>
  Claim C5 says that after an iteration that took the short-circuit path because the live
  and the tracked set have the same size, the next iteration, with the same live set,
  performs the full diff and makes the tracked set equal to the live set. The code does
  not: the only test is \<^verbatim>\<open>len(containers) == len(Crio.containers)\<close> (line 336), and it
  holds again. Here one container is tracked, the runtime lists one other container in
  both iterations; both iterations sleep 10 ms, the tracked set is still the old ID, the
  new container is not registered and the old one still is.
\<close>

theorem equal_size_swap_not_diffed_counterexample:
  "card {''5d9e2b7a4c1f''} = card {''8f3a1c0e7b2d''} \<and>
   fst (poll_loop other_listed_twice one_tracked) = [Sleep 10, Sleep 10] \<and>
   map_keys (heap (snd (poll_loop other_listed_twice one_tracked)))
            (containers (handler (snd (poll_loop other_listed_twice one_tracked))))
     = {''8f3a1c0e7b2d''} \<and>
   KubeArmorDaemon.Containers (daemon (snd (poll_loop other_listed_twice one_tracked)))
     ''5d9e2b7a4c1f'' = None \<and>
   KubeArmorDaemon.Containers (daemon (snd (poll_loop other_listed_twice one_tracked)))
     ''8f3a1c0e7b2d'' = Some (fetched ''8f3a1c0e7b2d'')"
  by code_simp

text \<open>
  Claim C5, amended. If in each of a sequence of iterations the stop channel is silent,
  the RPC succeeds and the live set has as many IDs as the set tracked at the start,
  whatever these IDs are, then every one of these iterations takes the short-circuit path
  (it sleeps 10 ms), and the registry, the handler and the tracked set are unchanged at
  the end. So a swap is left alone in the iteration that first sees it and in the
  following one with the live set unchanged.
\<close>

theorem equal_size_short_circuit_repeats:
  assumes "allocated (heap s) (containers (handler s))"
    and "\<forall>env \<in> set envs. \<not> StopChan env \<and>
           (\<exists>ids. ListContainers env = Inr ids \<and>
                  card (set ids) = card (map_keys (heap s) (containers (handler s))))"
  shows "fst (poll_loop envs s) = map (\<lambda>env. Sleep 10) envs \<and>
         daemon (snd (poll_loop envs s)) = daemon s \<and>
         handler (snd (poll_loop envs s)) = handler s \<and>
         map_keys (heap (snd (poll_loop envs s))) (containers (handler s))
           = map_keys (heap s) (containers (handler s))"
  using assms
proof (induction envs arbitrary: s)
  case Nil
  show ?case by simp
next
  case (Cons env envs)
  from Cons.prems(2) obtain ids where env: "\<not> StopChan env" "ListContainers env = Inr ids"
    "card (set ids) = card (map_keys (heap s) (containers (handler s)))"
    by auto
  let ?s1 = "s\<lparr>heap := (heap s)\<lparr>cells := (cells (heap s))(fresh (heap s) := set ids),
                            fresh := Suc (fresh (heap s))\<rparr>\<rparr>"
  have p: "poll env s = (Sleep 10, ?s1)"
    by (rule poll_short_circuit[OF env(1,2) Cons.prems(1) env(3)])
  have ne: "containers (handler s) \<noteq> Some (fresh (heap s))"
    using Cons.prems(1) by (auto simp: allocated_def)
  then have same: "map_keys (heap ?s1) (containers (handler ?s1))
                    = map_keys (heap s) (containers (handler s))"
    by (cases "containers (handler s)") auto
  have al: "allocated (heap ?s1) (containers (handler ?s1))"
    using Cons.prems(1) by (auto simp: allocated_def split: option.splits)
  have rest: "\<forall>env \<in> set envs. \<not> StopChan env \<and>
           (\<exists>ids. ListContainers env = Inr ids \<and>
                  card (set ids) = card (map_keys (heap ?s1) (containers (handler ?s1))))"
    using Cons.prems(2) unfolding same by simp
  obtain steps s2 where r: "poll_loop envs ?s1 = (steps, s2)"
    by (cases "poll_loop envs ?s1")
  then have l: "poll_loop (env # envs) s = (Sleep 10 # steps, s2)"
    by (simp add: p)
  from Cons.IH[OF al rest] have "steps = map (\<lambda>env. Sleep 10) envs" "daemon s2 = daemon s"
    "handler s2 = handler s"
    "map_keys (heap s2) (containers (handler s)) = map_keys (heap ?s1) (containers (handler ?s1))"
    unfolding r by simp_all
  then show ?case
    unfolding l same by simp
qed

theorem equal_size_short_circuit_repeats_witness:
  "fst (poll_loop other_listed_twice one_tracked) = [Sleep 10, Sleep 10] \<and>
   daemon (snd (poll_loop other_listed_twice one_tracked)) = daemon one_tracked \<and>
   map_keys (heap (snd (poll_loop other_listed_twice one_tracked))) (Some 0)
     = {''8f3a1c0e7b2d''}"
proof -
  have al: "allocated (heap one_tracked) (containers (handler one_tracked))"
    by (simp add: engine_def allocated_def)
  have h: "\<forall>env \<in> set other_listed_twice.
             \<not> StopChan env \<and>
             (\<exists>ids. ListContainers env = Inr ids \<and>
                    card (set ids)
                      = card (map_keys (heap one_tracked) (containers (handler one_tracked))))"
    by (simp add: runtime_def engine_def)
  from equal_size_short_circuit_repeats [OF al h] show ?thesis
    by (simp add: engine_def)
qed

subsection \<open>C6: what the two diff operations modify\<close>

text \<open>
  Claim C6 says that neither \<^verbatim>\<open>GetNewCrioContainers\<close> nor \<^verbatim>\<open>GetDeletedCrioContainers\<close>
  modifies the tracked set of the handler. The second does (lines 189 and 193): with
  one ID tracked and another live, the tracked set is the old ID before the call and the
  live ID after it, and the map object that held the tracked set is empty.
\<close>

theorem GetDeleted_replaces_tracked_counterexample:
  "map_keys swapped_sets (containers tracker) = {''8f3a1c0e7b2d''} \<and>
   map_keys
     (snd (GetDeletedCrioContainers (runtime []) tracker (Some 1) swapped_sets))
     (containers (snd (fst (GetDeletedCrioContainers (runtime []) tracker (Some 1)
                              swapped_sets))))
     = {''5d9e2b7a4c1f''} \<and>
   cells (snd (GetDeletedCrioContainers (runtime []) tracker (Some 1) swapped_sets)) 0 = {}"
  by (simp add: GetDeletedCrioContainers_def make_map_def maps_store_def runtime_def)

text \<open>
  Claim C6, amended. \<^verbatim>\<open>GetNewCrioContainers\<close> modifies no map that existed before the
  call (so neither the tracked set nor its argument), and it has no access to the
  handler's field or the registry. \<^verbatim>\<open>GetDeletedCrioContainers\<close> leaves the contents of
  its argument as they are, makes \<^verbatim>\<open>ch.containers\<close> refer to the map of its argument,
  leaves in the map that held the tracked set only the IDs that are also live, and
  modifies no other map that existed before the call.
\<close>

theorem GetNew_pure_GetDeleted_frame:
  assumes "allocated st (containers ch)" and "allocated st live"
    and "enumerates env (map_keys st (containers ch))"
  shows "(\<forall>p. p < fresh st \<longrightarrow>
            cells (snd (GetNewCrioContainers env ch live st)) p = cells st p) \<and>
         map_keys (snd (GetDeletedCrioContainers env ch live st)) live = map_keys st live \<and>
         containers (snd (fst (GetDeletedCrioContainers env ch live st))) = live \<and>
         map_keys (snd (GetDeletedCrioContainers env ch live st)) (containers ch)
           = map_keys st (containers ch) \<inter> map_keys st live \<and>
         (\<forall>p. p < fresh st \<and> containers ch \<noteq> Some p \<longrightarrow>
            cells (snd (GetDeletedCrioContainers env ch live st)) p = cells st p)"
proof -
  have o: "set (MapOrder env (map_keys st (containers ch))) = map_keys st (containers ch)"
    using assms(3) by (simp add: enumerates_def)
  note d = GetDeletedCrioContainers_eq[OF assms(1,2) o]
  have 1: "\<forall>p. p < fresh st \<longrightarrow>
            cells (snd (GetNewCrioContainers env ch live st)) p = cells st p"
    by (simp add: GetNewCrioContainers_eq[OF assms(1,2)])
  have 2: "map_keys (snd (GetDeletedCrioContainers env ch live st)) live = map_keys st live"
    using assms(1,2) unfolding d
    by (cases live; cases "containers ch") (auto simp: allocated_def)
  have 3: "containers (snd (fst (GetDeletedCrioContainers env ch live st))) = live"
    by (simp add: d)
  have 4: "map_keys (snd (GetDeletedCrioContainers env ch live st)) (containers ch)
           = map_keys st (containers ch) \<inter> map_keys st live"
    using assms(1) unfolding d by (cases "containers ch") (auto simp: allocated_def)
  have 5: "\<forall>p. p < fresh st \<and> containers ch \<noteq> Some p \<longrightarrow>
            cells (snd (GetDeletedCrioContainers env ch live st)) p = cells st p"
    unfolding d by (cases "containers ch") auto
  from 1 2 3 4 5 show ?thesis by blast
qed

theorem GetNew_pure_GetDeleted_frame_witness:
  "cells (snd (GetNewCrioContainers (runtime []) tracker (Some 1) overlapping_sets)) 0
     = {''8f3a1c0e7b2d'', ''5d9e2b7a4c1f''} \<and>
   cells (snd (GetNewCrioContainers (runtime []) tracker (Some 1) overlapping_sets)) 1
     = {''5d9e2b7a4c1f'', ''c07be11a9d3e''} \<and>
   map_keys (snd (GetDeletedCrioContainers (runtime []) tracker (Some 1) overlapping_sets))
            (Some 1)
     = {''5d9e2b7a4c1f'', ''c07be11a9d3e''} \<and>
   containers (snd (fst (GetDeletedCrioContainers (runtime []) tracker (Some 1)
                           overlapping_sets)))
     = Some 1 \<and>
   map_keys (snd (GetDeletedCrioContainers (runtime []) tracker (Some 1) overlapping_sets))
            (Some 0)
     = {''5d9e2b7a4c1f''}"
proof -
  let ?st = "overlapping_sets"
  have a: "allocated ?st (containers tracker)" "allocated ?st (Some 1)"
    by (simp_all add: allocated_def maps_store_def)
  have e: "enumerates (runtime []) (map_keys ?st (containers tracker))"
    by (rule runtime_enumerates) (simp add: maps_store_def)
  have f: "0 < fresh ?st" "1 < fresh ?st"
    by (simp_all add: maps_store_def)
  have k: "cells ?st 0 = {''8f3a1c0e7b2d'', ''5d9e2b7a4c1f''}"
    "cells ?st 1 = {''5d9e2b7a4c1f'', ''c07be11a9d3e''}"
    "map_keys ?st (Some 1) = {''5d9e2b7a4c1f'', ''c07be11a9d3e''}"
    "map_keys ?st (Some 0) \<inter> {''5d9e2b7a4c1f'', ''c07be11a9d3e''} = {''5d9e2b7a4c1f''}"
    by (auto simp add: maps_store_def)
  have ch: "containers tracker = Some 0" by simp
  note c = GetNew_pure_GetDeleted_frame [OF a e]
  from c [THEN conjunct1] f
  have 1: "cells (snd (GetNewCrioContainers (runtime []) tracker (Some 1) ?st)) 0
             = cells ?st 0"
    and 2: "cells (snd (GetNewCrioContainers (runtime []) tracker (Some 1) ?st)) 1
             = cells ?st 1"
    by blast+
  note 3 = c [THEN conjunct2, THEN conjunct1]
  note 4 = c [THEN conjunct2, THEN conjunct2, THEN conjunct1]
  note 5 = c [THEN conjunct2, THEN conjunct2, THEN conjunct2, THEN conjunct1]
  show ?thesis
    using 1 2 3 4 5 unfolding k ch by (intro conjI)
qed

subsection \<open>C7: the diff is the set difference\<close>

text \<open>
  Claim C7. For a live map and a tracked map that \<^verbatim>\<open>range\<close> can enumerate (so their key
  sets are finite), \<^verbatim>\<open>GetNewCrioContainers\<close> returns a map whose keys are the live IDs that
  are not tracked, and \<^verbatim>\<open>GetDeletedCrioContainers\<close> a map whose keys are the tracked IDs
  that are not live. So the added IDs are disjoint from the tracked ones, the removed IDs
  are disjoint from the live ones, and the tracked IDs with the added ones and without
  the removed ones are the live IDs.
\<close>

theorem diff_is_set_difference:
  assumes "allocated st (containers ch)" and "allocated st live"
    and "enumerates env (map_keys st live)"
    and "enumerates env (map_keys st (containers ch))"
  shows "map_keys (snd (GetNewCrioContainers env ch live st))
                  (fst (GetNewCrioContainers env ch live st))
           = map_keys st live - map_keys st (containers ch) \<and>
         map_keys (snd (GetDeletedCrioContainers env ch live st))
                  (fst (fst (GetDeletedCrioContainers env ch live st)))
           = map_keys st (containers ch) - map_keys st live \<and>
         map_keys (snd (GetNewCrioContainers env ch live st))
                  (fst (GetNewCrioContainers env ch live st))
           \<inter> map_keys st (containers ch) = {} \<and>
         map_keys (snd (GetDeletedCrioContainers env ch live st))
                  (fst (fst (GetDeletedCrioContainers env ch live st)))
           \<inter> map_keys st live = {} \<and>
         (map_keys st (containers ch)
            \<union> map_keys (snd (GetNewCrioContainers env ch live st))
                        (fst (GetNewCrioContainers env ch live st)))
           - map_keys (snd (GetDeletedCrioContainers env ch live st))
                      (fst (fst (GetDeletedCrioContainers env ch live st)))
           = map_keys st live"
proof -
  have o: "set (MapOrder env (map_keys st live)) = map_keys st live"
    "set (MapOrder env (map_keys st (containers ch))) = map_keys st (containers ch)"
    using assms(3,4) by (simp_all add: enumerates_def)
  have n: "map_keys (snd (GetNewCrioContainers env ch live st))
                  (fst (GetNewCrioContainers env ch live st))
           = map_keys st live - map_keys st (containers ch)"
    by (auto simp: GetNewCrioContainers_eq[OF assms(1,2)] o)
  have d: "map_keys (snd (GetDeletedCrioContainers env ch live st))
                  (fst (fst (GetDeletedCrioContainers env ch live st)))
           = map_keys st (containers ch) - map_keys st live"
    using assms(1)
    by (auto simp: GetDeletedCrioContainers_eq[OF assms(1,2) o(2)] allocated_def
        split: option.splits)
  show ?thesis unfolding n d by blast
qed

theorem diff_is_set_difference_witness:
  "map_keys (snd (GetNewCrioContainers (runtime []) tracker (Some 1) overlapping_sets))
            (fst (GetNewCrioContainers (runtime []) tracker (Some 1) overlapping_sets))
     = {''c07be11a9d3e''} \<and>
   map_keys (snd (GetDeletedCrioContainers (runtime []) tracker (Some 1) overlapping_sets))
            (fst (fst (GetDeletedCrioContainers (runtime []) tracker (Some 1)
                         overlapping_sets)))
     = {''8f3a1c0e7b2d''}"
proof -
  let ?st = "overlapping_sets"
  have a: "allocated ?st (containers tracker)" "allocated ?st (Some 1)"
    by (simp_all add: allocated_def maps_store_def)
  have e: "enumerates (runtime []) (map_keys ?st (Some 1))"
    "enumerates (runtime []) (map_keys ?st (containers tracker))"
    by (rule runtime_enumerates, simp add: maps_store_def)+
  have k: "map_keys ?st (Some 1) = {''5d9e2b7a4c1f'', ''c07be11a9d3e''}"
    "map_keys ?st (containers tracker) = {''8f3a1c0e7b2d'', ''5d9e2b7a4c1f''}"
    by (auto simp add: maps_store_def)
  have s: "{''5d9e2b7a4c1f'', ''c07be11a9d3e''} - {''8f3a1c0e7b2d'', ''5d9e2b7a4c1f''}
             = {''c07be11a9d3e''}"
    "{''8f3a1c0e7b2d'', ''5d9e2b7a4c1f''} - {''5d9e2b7a4c1f'', ''c07be11a9d3e''}
             = {''8f3a1c0e7b2d''}"
    by auto
  from diff_is_set_difference [OF a e, unfolded k s] show ?thesis
    by (elim conjE) (intro conjI; assumption)
qed

subsection \<open>C8: a start for a resolved record is rejected\<close>




subsection \<open>C9: what a destroy removes\<close>

text \<open>
  Claim C9. A destroy for an ID present in \<open>Containers\<close> removes the record from the
  map. In the first end point that is the pod of the removed record, and in no other,
  it removes the first entry of \<open>Containers\<close> equal to the record's ID and the first
  entry of \<open>AppArmorProfiles\<close> equal to the record's profile. Nothing else of the registry
  is consulted, so the profile entry goes also when another container of the pod, still
  registered, has the same profile.
\<close>

theorem destroy_removes_first_entries:
  assumes "Crio \<noteq> None"
    and "KubeArmorDaemon.Containers dm containerID = Some container"
  shows "KubeArmorDaemon.Containers (snd (UpdateCrioContainer env Crio dm containerID ''destroy''))
           = (KubeArmorDaemon.Containers dm)(containerID := None) \<and>
         EndPoints (snd (UpdateCrioContainer env Crio dm containerID ''destroy'')) =
           (case first_pod container (EndPoints dm) of
              None \<Rightarrow> EndPoints dm
            | Some i \<Rightarrow>
                (EndPoints dm)
                  [i := (EndPoints dm ! i)
                     \<lparr>EndPoint.Containers :=
                        remove1 (ContainerID container) (EndPoint.Containers (EndPoints dm ! i)),
                      AppArmorProfiles :=
                        remove1 (AppArmorProfile container) (AppArmorProfiles (EndPoints dm ! i))\<rparr>])"
  using assms
  by (simp add: destroy_present remove_from_endpoints_first_pod remove_from_endpoint_def
      remove_first_remove1 split: option.splits)

text \<open>
  Two containers of one pod share a profile. Destroying the first leaves the second
  registered, with that profile, and the profile list of the pod empty.
\<close>

theorem destroy_removes_first_entries_witness:
  "KubeArmorDaemon.Containers
     (snd (UpdateCrioContainer (runtime [''5d9e2b7a4c1f'']) the_handler two_siblings
             ''8f3a1c0e7b2d'' ''destroy''))
     = [''5d9e2b7a4c1f'' \<mapsto> fetched ''5d9e2b7a4c1f''] \<and>
   AppArmorProfile (fetched ''5d9e2b7a4c1f'') = ''kubearmor-default-web'' \<and>
   EndPoints
     (snd (UpdateCrioContainer (runtime [''5d9e2b7a4c1f'']) the_handler two_siblings
             ''8f3a1c0e7b2d'' ''destroy''))
     = [pod ''prod'' [] [], pod ''default'' [''5d9e2b7a4c1f''] []]"
  using destroy_removes_first_entries [of the_handler two_siblings "''8f3a1c0e7b2d''"
      "fetched ''8f3a1c0e7b2d''" "runtime [''5d9e2b7a4c1f'']"]
  by (auto simp add: example_defs same_pod_def fun_eq_iff)

subsection \<open>C10: a record without ID is rejected\<close>

text \<open>
  Claim C10. If \<^verbatim>\<open>GetContainerInfo\<close> returns, without error, a record whose \<open>ContainerID\<close>
  is empty, a start returns false before it takes any lock: no lock or unlock call is
  made, and the registry is as before in every part. And if \<open>Containers\<close> has no record
  under the empty ID, no sequence of calls of \<^verbatim>\<open>UpdateCrioContainer\<close> gives it one.
\<close>

theorem empty_id_rejected:
  "(GetContainerInfo env containerID = InfoReturned container None \<and>
    ContainerID container = [] \<longrightarrow>
      fst (UpdateCrioContainer env Crio dm containerID ''start'') = Returned False \<and>
      LockEvents (snd (UpdateCrioContainer env Crio dm containerID ''start''))
        = LockEvents dm \<and>
      snd (UpdateCrioContainer env Crio dm containerID ''start'') = dm) \<and>
   (KubeArmorDaemon.Containers dm [] = None \<longrightarrow>
      KubeArmorDaemon.Containers (UpdateCrioContainer_calls Crio calls dm) [] = None)"
  by (simp add: calls_keep_empty_key_absent UpdateCrioContainer_def)

text \<open>
  A start answered with a record without ID, which leaves no lock event, beside a start
  that registers a container and leaves two; and after the first a start that registers
  a container and a destroy for the empty ID.
\<close>

theorem empty_id_rejected_witness:
  "UpdateCrioContainer nameless_runtime the_handler empty_registry ''8f3a1c0e7b2d'' ''start''
     = (Returned False, empty_registry) \<and>
   LockEvents (snd (UpdateCrioContainer nameless_runtime the_handler empty_registry
                      ''8f3a1c0e7b2d'' ''start'')) = [] \<and>
   LockEvents (snd (UpdateCrioContainer (runtime [''8f3a1c0e7b2d'']) the_handler
                      empty_registry ''8f3a1c0e7b2d'' ''start''))
     = [Lock ContainersLock, Unlock ContainersLock] \<and>
   KubeArmorDaemon.Containers
     (UpdateCrioContainer_calls the_handler
        [(nameless_runtime, ''8f3a1c0e7b2d'', ''start''),
         (runtime [''8f3a1c0e7b2d''], ''8f3a1c0e7b2d'', ''start''),
         (runtime [], [], ''destroy'')]
        empty_registry) [] = None"
proof -
  let ?calls = "[(nameless_runtime, ''8f3a1c0e7b2d'', ''start''),
                 (runtime [''8f3a1c0e7b2d''], ''8f3a1c0e7b2d'', ''start''),
                 (runtime [], [], ''destroy'')]"
  have a: "GetContainerInfo nameless_runtime ''8f3a1c0e7b2d'' = InfoReturned (fetched []) None \<and>
           ContainerID (fetched []) = []"
    by (simp add: nameless_info fetched_def)
  have b: "KubeArmorDaemon.Containers empty_registry [] = None"
    by (simp add: registry_def)
  have e: "LockEvents empty_registry = []"
    by (simp add: registry_def)
  have l: "LockEvents (snd (UpdateCrioContainer (runtime [''8f3a1c0e7b2d'']) the_handler
                      empty_registry ''8f3a1c0e7b2d'' ''start''))
            = [Lock ContainersLock, Unlock ContainersLock]"
    by (simp add: example_defs UpdateCrioContainer_def lock_def unlock_def)
  note t = empty_id_rejected [of nameless_runtime "''8f3a1c0e7b2d''" "fetched []" the_handler
      empty_registry ?calls]
  from t [THEN conjunct1] a
  have 1: "fst (UpdateCrioContainer nameless_runtime the_handler empty_registry
                  ''8f3a1c0e7b2d'' ''start'') = Returned False"
    and 2: "LockEvents (snd (UpdateCrioContainer nameless_runtime the_handler empty_registry
                      ''8f3a1c0e7b2d'' ''start'')) = LockEvents empty_registry"
    and 3: "snd (UpdateCrioContainer nameless_runtime the_handler empty_registry
                  ''8f3a1c0e7b2d'' ''start'') = empty_registry"
    by blast+
  from t [THEN conjunct2] b
  have 4: "KubeArmorDaemon.Containers
             (UpdateCrioContainer_calls the_handler ?calls empty_registry) [] = None"
    by blast
  from 1 3 have "UpdateCrioContainer nameless_runtime the_handler empty_registry
                   ''8f3a1c0e7b2d'' ''start'' = (Returned False, empty_registry)"
    by (simp add: prod_eq_iff)
  with 2 4 l show ?thesis
    unfolding e by (intro conjI)
qed

end
